theory Spec2Isabelle
  imports Main
begin

section \<open>Values and strings of the JavaScript runtime\<close>

text \<open>
  The program is the React component \<open>App\<close> of \<open>src/App.jsx\<close>. A JavaScript string is
  modelled as a \<open>string\<close> holding its UTF-8 bytes: string equality, \<open>startsWith\<close>,
  \<open>endsWith\<close> and \<open>includes\<close> with the ASCII needles of this program agree on both
  readings. The pictographs that open the notification texts are spelled as their bytes.
\<close>

definition emoji_check :: string where
  "emoji_check = [CHR 0xE2, CHR 0x9C, CHR 0x85]"

definition emoji_bulb :: string where
  "emoji_bulb = [CHR 0xF0, CHR 0x9F, CHR 0x92, CHR 0xA1]"

definition emoji_cross :: string where
  "emoji_cross = [CHR 0xE2, CHR 0x9D, CHR 0x8C]"

definition emoji_warning :: string where
  "emoji_warning = [CHR 0xE2, CHR 0x9A, CHR 0xA0, CHR 0xEF, CHR 0xB8, CHR 0x8F]"

definition emoji_arrows :: string where
  "emoji_arrows = [CHR 0xF0, CHR 0x9F, CHR 0x94, CHR 0x84]"

definition emoji_loudspeaker :: string where
  "emoji_loudspeaker = [CHR 0xF0, CHR 0x9F, CHR 0x93, CHR 0xA2]"


text \<open>
  A value as \<open>JSON.parse\<close> can produce it, and \<open>undefined\<close> for a property that is not
  there. A Number is carried by the text \<open>String(n)\<close> gives for it: that text decides
  all this program does with a number (its truthiness, \<open>!==\<close>, its place in a template
  literal), since \<open>String\<close> tells any two numbers apart that \<open>===\<close> tells apart
  (\<open>0\<close> and \<open>-0\<close> both read \<open>0\<close> and are \<open>===\<close>). An object lists its own properties, each
  key once.
\<close>

datatype js_value =
    JUndefined
  | JNull
  | JBool bool
  | JNumber string
  | JString string
  | JObject "(string \<times> js_value) list"
  | JArray "js_value list"

text \<open>\<open>if (v)\<close>: the values that count as false are \<open>undefined\<close>, \<open>null\<close>, \<open>false\<close>,
  \<open>0\<close>, \<open>NaN\<close> and the empty string.\<close>

fun truthy :: "js_value \<Rightarrow> bool" where
  "truthy JUndefined = False"
| "truthy JNull = False"
| "truthy (JBool b) = b"
| "truthy (JNumber n) = (n \<noteq> ''0'' \<and> n \<noteq> ''NaN'')"
| "truthy (JString s) = (s \<noteq> [])"
| "truthy (JObject fs) = True"
| "truthy (JArray xs) = True"

text \<open>\<open>prev !== v\<close> where \<open>v\<close> has just been built by \<open>JSON.parse\<close> or by the object literal
  of \<open>onmessage\<close>: an object or array \<open>v\<close> is a new reference, identical to nothing older;
  primitive values compare by type and content.\<close>

fun strict_neq :: "js_value \<Rightarrow> js_value \<Rightarrow> bool" where
  "strict_neq prev (JObject fs) = True"
| "strict_neq prev (JArray xs) = True"
| "strict_neq prev v = (prev \<noteq> v)"

text \<open>\<open>data.command\<close>: reading a property of \<open>null\<close> or \<open>undefined\<close> throws a TypeError
  (\<open>None\<close>); an object gives its own property or \<open>undefined\<close> (\<open>Object.prototype\<close> has no
  \<open>command\<close>); every other value has no such property.\<close>

fun get_command :: "js_value \<Rightarrow> js_value option" where
  "get_command JUndefined = None"
| "get_command JNull = None"
| "get_command (JObject fs) =
     (case map_of fs ''command'' of None \<Rightarrow> Some JUndefined | Some v \<Rightarrow> Some v)"
| "get_command v = Some JUndefined"

text \<open>The string a template literal puts for \<open>${v}\<close>. An object parsed from JSON prints as
  \<open>[object Object]\<close>, unless it has an own property \<open>toString\<close>, which is then no function:
  the conversion throws a TypeError (\<open>None\<close>). An array joins its elements with commas,
  \<open>null\<close> printing as nothing.\<close>

fun join_strings :: "string option list \<Rightarrow> string option" where
  "join_strings [] = Some []"
| "join_strings [x] = x"
| "join_strings (x # y # ys) =
     (case x of None \<Rightarrow> None
      | Some a \<Rightarrow> (case join_strings (y # ys) of None \<Rightarrow> None
                   | Some b \<Rightarrow> Some (a @ '','' @ b)))"

fun to_string :: "js_value \<Rightarrow> string option" where
  "to_string JUndefined = Some ''undefined''"
| "to_string JNull = Some ''null''"
| "to_string (JBool b) = Some (if b then ''true'' else ''false'')"
| "to_string (JNumber n) = Some n"
| "to_string (JString s) = Some s"
| "to_string (JObject fs) =
     (if ''toString'' \<in> fst ` set fs then None else Some ''[object Object]'')"
| "to_string (JArray xs) =
     join_strings (map (\<lambda>x. if x = JNull \<or> x = JUndefined then Some [] else to_string x) xs)"

definition startsWith :: "string \<Rightarrow> string \<Rightarrow> bool" where
  "startsWith s p = (take (length p) s = p)"

definition endsWith :: "string \<Rightarrow> string \<Rightarrow> bool" where
  "endsWith s p = (length p \<le> length s \<and> drop (length s - length p) s = p)"




section \<open>The component's state\<close>

datatype toast_type = Success | Info | Warning | Error

datatype ready_state = CONNECTING | OPEN | CLOSING | CLOSED

text \<open>
  The hooks of \<open>App\<close> (\<open>status\<close>, \<open>error\<close>, \<open>listening\<close>, \<open>transcript\<close>, \<open>wsRef\<close>,
  \<open>lastToastRef\<close>) and what the component does to the world around it:
  \<^item> \<open>sockets\<close>: the \<open>readyState\<close> of every WebSocket constructed so far, in order of
    construction; \<open>wsRef\<close> holds the index of the socket it refers to;
  \<^item> \<open>toasts\<close>: the calls \<open>toast[type](message)\<close> made so far;
  \<^item> \<open>sent\<close>: the calls \<open>send(payload)\<close> made so far, with the socket;
  \<^item> \<open>timers\<close>: how many \<open>setTimeout(connectWebSocket, 3000)\<close> have not fired yet.
\<close>

record app_state =
  status :: js_value
  error :: "string option"
  listening :: bool
  transcript :: string
  wsRef :: "nat option"
  lastToastRef :: string
  sockets :: "ready_state list"
  toasts :: "(toast_type \<times> string) list"
  sent :: "(nat \<times> string) list"
  timers :: nat

definition initial_state :: app_state where
  "initial_state =
     \<lparr> status = JString ''OFF'', error = None, listening = False, transcript = [],
       wsRef = None, lastToastRef = [], sockets = [], toasts = [], sent = [], timers = 0 \<rparr>"

section \<open>The notification gate\<close>

definition showToast :: "string \<Rightarrow> toast_type \<Rightarrow> app_state \<Rightarrow> app_state" where
  "showToast message type s =
     (if lastToastRef s \<noteq> message
      then s\<lparr>lastToastRef := message, toasts := toasts s @ [(type, message)]\<rparr>
      else s)"


section \<open>The connection\<close>

text \<open>
  \<open>connectWebSocket\<close> constructs a WebSocket, which starts in \<open>CONNECTING\<close>, and stores it
  in \<open>wsRef\<close>. The four handlers it assigns are the functions \<open>onopen\<close>, \<open>onmessage\<close>,
  \<open>onerror\<close> and \<open>onclose\<close> below; none of them mentions the socket it is assigned to.
\<close>

definition connectWebSocket :: "app_state \<Rightarrow> app_state" where
  "connectWebSocket s =
     s\<lparr>sockets := sockets s @ [CONNECTING], wsRef := Some (length (sockets s))\<rparr>"

text \<open>The body of the effect: \<open>if (wsRef.current) return;\<close> and then
  \<open>connectWebSocket()\<close>.\<close>

definition start :: "app_state \<Rightarrow> app_state" where
  "start s = (if wsRef s \<noteq> None then s else connectWebSocket s)"

text \<open>\<open>socket.close()\<close> of the browser: a socket that is connecting or open starts closing,
  any other socket is left alone.\<close>

definition ws_close :: "nat \<Rightarrow> app_state \<Rightarrow> app_state" where
  "ws_close h s =
     (if h < length (sockets s) \<and> (sockets s ! h = CONNECTING \<or> sockets s ! h = OPEN)
      then s\<lparr>sockets := (sockets s)[h := CLOSING]\<rparr> else s)"

text \<open>The function the effect returns, run by React when the component is torn down.\<close>

definition cleanup :: "app_state \<Rightarrow> app_state" where
  "cleanup s =
     (case wsRef s of
        None \<Rightarrow> s
      | Some h \<Rightarrow> (ws_close h s)\<lparr>wsRef := None\<rparr>)"

definition onopen :: "app_state \<Rightarrow> app_state" where
  "onopen s =
     (showToast (emoji_check @ '' Connected to WebSocket Server'') Success s)\<lparr>error := None\<rparr>"

definition onerror :: "app_state \<Rightarrow> app_state" where
  "onerror s =
     showToast (emoji_warning @ '' WebSocket Error! Retrying...'') Error
       (s\<lparr>error := Some (emoji_cross @ '' Connection failed!'')\<rparr>)"

definition onclose :: "app_state \<Rightarrow> app_state" where
  "onclose s =
     (showToast (emoji_arrows @ '' Reconnecting to WebSocket...'') Warning
        (s\<lparr>error := Some (emoji_warning @ '' WebSocket disconnected. Reconnecting...'')\<rparr>))
     \<lparr>wsRef := None, timers := Suc (timers s)\<rparr>"

text \<open>
  What the browser does around the handlers: a connecting socket opens, a socket that is
  not closed yet closes; the browser sets the socket's \<open>readyState\<close> and then calls the
  handler. A pending timer fires and calls \<open>connectWebSocket\<close>.
\<close>

definition socket_opened :: "nat \<Rightarrow> app_state \<Rightarrow> app_state" where
  "socket_opened i s =
     (if i < length (sockets s) \<and> sockets s ! i = CONNECTING
      then onopen (s\<lparr>sockets := (sockets s)[i := OPEN]\<rparr>) else s)"

definition socket_closed :: "nat \<Rightarrow> app_state \<Rightarrow> app_state" where
  "socket_closed i s =
     (if i < length (sockets s) \<and> sockets s ! i \<noteq> CLOSED
      then onclose (s\<lparr>sockets := (sockets s)[i := CLOSED]\<rparr>) else s)"

definition timer_fired :: "app_state \<Rightarrow> app_state" where
  "timer_fired s =
     (if timers s = 0 then s else connectWebSocket (s\<lparr>timers := timers s - 1\<rparr>))"

section \<open>Inbound messages\<close>

text \<open>\<open>event.data\<close> is a string for a text frame and a Blob for a binary frame.\<close>

datatype message_data = Text string | Blob

text \<open>
  The first statement of the \<open>try\<close> block. \<open>parsed\<close> is what \<open>JSON.parse(event.data)\<close>
  does on this text: \<open>Some v\<close> when it returns \<open>v\<close>, \<open>None\<close> when it throws. The result is
  \<open>None\<close> when the statement throws: \<open>JSON.parse\<close> did, or \<open>event.data\<close> is a Blob, which
  has no method \<open>startsWith\<close>.
\<close>

definition parse_data :: "message_data \<Rightarrow> js_value option \<Rightarrow> js_value option" where
  "parse_data d parsed =
     (case d of
        Blob \<Rightarrow> None
      | Text raw \<Rightarrow>
          if startsWith raw ''{'' \<and> endsWith raw ''}'' then parsed
          else Some (JObject [(''command'', JString raw)]))"

text \<open>
  The updater given to \<open>setStatus\<close>, applied to the status of the moment. When the template
  literal throws, no handler of the program catches it (React runs the updater outside the
  \<open>try\<close> block of \<open>onmessage\<close>): the result is \<open>None\<close>.
\<close>

definition status_updater :: "js_value \<Rightarrow> app_state \<Rightarrow> app_state option" where
  "status_updater command s =
     (if strict_neq (status s) command
      then (case to_string command of
              None \<Rightarrow> None
            | Some text \<Rightarrow>
                Some ((showToast (emoji_bulb @ '' Device is now '' @ text) Info s)
                        \<lparr>status := command\<rparr>))
      else Some (s\<lparr>status := command\<rparr>))"

text \<open>\<open>if (data.command) { setStatus(...) }\<close>, given the value of \<open>data.command\<close>.\<close>

definition apply_command :: "js_value \<Rightarrow> app_state \<Rightarrow> app_state option" where
  "apply_command command s = (if truthy command then status_updater command s else Some s)"

definition parse_error_toast :: "app_state \<Rightarrow> app_state" where
  "parse_error_toast s =
     showToast (emoji_cross @ '' Error parsing WebSocket message!'') Error s"

definition onmessage :: "message_data \<Rightarrow> js_value option \<Rightarrow> app_state \<Rightarrow> app_state option" where
  "onmessage d parsed s =
     (case parse_data d parsed of
        None \<Rightarrow> Some (parse_error_toast s)
      | Some data \<Rightarrow>
          (case get_command data of
             None \<Rightarrow> Some (parse_error_toast s)
           | Some command \<Rightarrow> apply_command command s))"

section \<open>Outbound commands\<close>

text \<open>\<open>JSON.stringify({ command })\<close> for a string \<open>command\<close>: the string is quoted, with
  the quotation mark, the backslash and the control characters escaped.\<close>

definition hex_digit :: "nat \<Rightarrow> char" where
  "hex_digit n = ''0123456789abcdef'' ! (n mod 16)"

definition quote_char :: "char \<Rightarrow> string" where
  \<open>quote_char c =
     (if c = CHR 0x22 then [CHR 0x5C, CHR 0x22]
      else if c = CHR 0x5C then [CHR 0x5C, CHR 0x5C]
      else if c = CHR 0x08 then [CHR 0x5C, CHR ''b'']
      else if c = CHR 0x0C then [CHR 0x5C, CHR ''f'']
      else if c = CHR 0x0A then [CHR 0x5C, CHR ''n'']
      else if c = CHR 0x0D then [CHR 0x5C, CHR ''r'']
      else if c = CHR 0x09 then [CHR 0x5C, CHR ''t'']
      else if (of_char c :: nat) < 32
        then [CHR 0x5C, CHR ''u'', CHR ''0'', CHR ''0'',
              hex_digit (of_char c div 16), hex_digit (of_char c)]
      else [c])\<close>

definition JSON_stringify_command :: "string \<Rightarrow> string" where
  \<open>JSON_stringify_command command =
     ''{"command":"'' @ concat (map quote_char command) @ ''"}''\<close>

text \<open>The \<open>readyState\<close> of the socket \<open>wsRef\<close> refers to, if it refers to one.\<close>

definition phase :: "app_state \<Rightarrow> ready_state option" where
  "phase s =
     (case wsRef s of
        None \<Rightarrow> None
      | Some h \<Rightarrow> if h < length (sockets s) then Some (sockets s ! h) else None)"

text \<open>\<open>wsRef.current.send(payload)\<close>.\<close>

definition ws_send :: "string \<Rightarrow> app_state \<Rightarrow> app_state" where
  "ws_send payload s =
     (case wsRef s of
        None \<Rightarrow> s
      | Some h \<Rightarrow> s\<lparr>sent := sent s @ [(h, payload)]\<rparr>)"

text \<open>The test \<open>wsRef.current && wsRef.current.readyState === WebSocket.OPEN\<close> is
  \<open>phase s = Some OPEN\<close>.\<close>

definition toggleAppliance :: "string \<Rightarrow> app_state \<Rightarrow> app_state" where
  "toggleAppliance command s =
     (if phase s = Some OPEN
      then (showToast (emoji_loudspeaker @ '' Command Sent: '' @ command) Success
              (ws_send (JSON_stringify_command command) s))
           \<lparr>error := None\<rparr>
      else showToast (emoji_cross @ '' WebSocket not connected!'') Error
             (s\<lparr>error := Some (emoji_cross @ '' WebSocket not connected!'')\<rparr>))"

section \<open>Voice commands\<close>




section \<open>What the notification gate preserves\<close>

lemma showToast_fields [simp]:
  "status (showToast m t s) = status s"
  "error (showToast m t s) = error s"
  "wsRef (showToast m t s) = wsRef s"
  "sockets (showToast m t s) = sockets s"
  "sent (showToast m t s) = sent s"
  "timers (showToast m t s) = timers s"
  "transcript (showToast m t s) = transcript s"
  "listening (showToast m t s) = listening s"
  "lastToastRef (showToast m t s) = m"
  "toasts (showToast m t s) = toasts s @ (if lastToastRef s = m then [] else [(t, m)])"
  by (simp_all add: showToast_def)

section \<open>A reconnect that fires while a socket is held\<close>

text \<open>
  Claim C1, on the code. A request for a connection made while a socket is held is to be
  a no-op, so that one connection at most is alive. The effect keeps to that: it returns at
  once when \<open>wsRef\<close> holds a socket. The reconnect that \<open>onclose\<close> schedules does not: it
  calls \<open>connectWebSocket\<close> behind no test. When React runs the effect, its cleanup and the
  effect again (as it does in strict mode) and both sockets are lost, two reconnects are
  pending. The first fires and constructs socket 2. In that state, where \<open>wsRef\<close> holds
  socket 2, still connecting, the body of the effect changes nothing, but the second
  reconnect fires and constructs socket 3 beside socket 2.
\<close>

theorem scheduled_reconnect_unguarded:
  "timers (socket_closed 1 (socket_closed 0 (start (cleanup (start initial_state))))) = 2
   \<and> phase (timer_fired
         (socket_closed 1 (socket_closed 0 (start (cleanup (start initial_state))))))
       = Some CONNECTING
   \<and> wsRef (timer_fired
         (socket_closed 1 (socket_closed 0 (start (cleanup (start initial_state))))))
       = Some 2
   \<and> start (timer_fired
         (socket_closed 1 (socket_closed 0 (start (cleanup (start initial_state))))))
       = timer_fired
           (socket_closed 1 (socket_closed 0 (start (cleanup (start initial_state)))))
   \<and> sockets (timer_fired (timer_fired
         (socket_closed 1 (socket_closed 0 (start (cleanup (start initial_state)))))))
       = [CLOSED, CLOSED, CONNECTING, CONNECTING]
   \<and> wsRef (timer_fired (timer_fired
         (socket_closed 1 (socket_closed 0 (start (cleanup (start initial_state)))))))
       = Some 3"
  by (simp add: phase_def timer_fired_def cleanup_def ws_close_def socket_closed_def
      onclose_def start_def connectWebSocket_def initial_state_def)

section \<open>A reconnect that fires after the teardown\<close>

text \<open>
  Claim C8, on the code. The component mounts and socket 0 is lost, which schedules the
  reconnect; the component is torn down before the three seconds are over, with nothing
  left to close; then the timer fires. \<open>connectWebSocket\<close> tests nothing: it constructs
  socket 1 and stores it in \<open>wsRef\<close>. The same happens when the teardown itself closes an
  open socket 0 and the browser then reports the close.
\<close>

theorem reconnect_after_teardown:
  "wsRef (cleanup (socket_closed 0 (start initial_state))) = None
   \<and> timers (cleanup (socket_closed 0 (start initial_state))) = 1
   \<and> sockets (timer_fired (cleanup (socket_closed 0 (start initial_state))))
       = [CLOSED, CONNECTING]
   \<and> wsRef (timer_fired (cleanup (socket_closed 0 (start initial_state)))) = Some 1
   \<and> sockets (cleanup (socket_opened 0 (start initial_state))) = [CLOSING]
   \<and> wsRef (cleanup (socket_opened 0 (start initial_state))) = None
   \<and> sockets (timer_fired (socket_closed 0 (cleanup (socket_opened 0 (start initial_state)))))
       = [CLOSED, CONNECTING]
   \<and> wsRef (timer_fired (socket_closed 0 (cleanup (socket_opened 0 (start initial_state)))))
       = Some 1"
  by (simp add: timer_fired_def cleanup_def ws_close_def socket_closed_def socket_opened_def
      onclose_def onopen_def start_def connectWebSocket_def initial_state_def)

section \<open>Commands go out on an open connection only\<close>

lemma quote_plain:
  assumes "\<forall>c\<in>set command. c \<noteq> CHR 0x22 \<and> c \<noteq> CHR 0x5C \<and> (32::nat) \<le> of_char c"
  shows "concat (map quote_char command) = command"
  using assms
proof (induction command)
  case Nil
  then show ?case by simp
next
  case (Cons c cs)
  then have "c \<noteq> CHR 0x22" "c \<noteq> CHR 0x5C" "(32::nat) \<le> of_char c"
    by simp_all
  then have "quote_char c = [c]"
    by (auto simp: quote_char_def)
  with Cons show ?case by simp
qed

lemma stringify_ON: \<open>JSON_stringify_command ''ON'' = ''{"command":"ON"}''\<close>
  by (simp add: JSON_stringify_command_def quote_char_def)

lemma stringify_OFF: \<open>JSON_stringify_command ''OFF'' = ''{"command":"OFF"}''\<close>
  by (simp add: JSON_stringify_command_def quote_char_def)

text \<open>
  Claim C2. When the socket in \<open>wsRef\<close> is \<open>OPEN\<close>, \<open>toggleAppliance command\<close> sends
  \<open>JSON.stringify({ command })\<close> on it: the text \<open>{"command":"\<close>, the command with its
  quotation marks, backslashes and control characters escaped, and \<open>"}\<close>. A command with
  no such character stands in the payload as it is, so \<open>ON\<close> goes out as
  \<open>{"command":"ON"}\<close> and \<open>OFF\<close> as \<open>{"command":"OFF"}\<close>. The message
  \<open>Command Sent: command\<close> is passed with severity success to the notification gate (which
  displays it unless it repeats the last message) and \<open>error\<close> is set to \<open>null\<close>. In every
  other case nothing is sent, the message \<open>WebSocket not connected!\<close> goes to the gate with
  severity error, and \<open>error\<close> holds that text; nothing else of the state changes, so the
  command is kept nowhere.
\<close>

theorem toggleAppliance_gating:
  \<open>(phase s = Some OPEN \<longrightarrow>
      (\<exists>h. wsRef s = Some h
        \<and> toggleAppliance command s
            = s\<lparr>sent := sent s @
                  [(h, ''{"command":"'' @ concat (map quote_char command) @ ''"}'')],
                error := None,
                lastToastRef := emoji_loudspeaker @ '' Command Sent: '' @ command,
                toasts := toasts s @
                  (if lastToastRef s = emoji_loudspeaker @ '' Command Sent: '' @ command
                   then []
                   else [(Success, emoji_loudspeaker @ '' Command Sent: '' @ command)])\<rparr>
        \<and> sent (toggleAppliance ''ON'' s) = sent s @ [(h, ''{"command":"ON"}'')]
        \<and> sent (toggleAppliance ''OFF'' s) = sent s @ [(h, ''{"command":"OFF"}'')]))
   \<and> ((\<forall>c\<in>set command. c \<noteq> CHR 0x22 \<and> c \<noteq> CHR 0x5C \<and> (32::nat) \<le> of_char c) \<longrightarrow>
        concat (map quote_char command) = command)
   \<and> quote_char (CHR 0x22) = [CHR 0x5C, CHR 0x22]
   \<and> quote_char (CHR 0x5C) = [CHR 0x5C, CHR 0x5C]
   \<and> quote_char (CHR 0x08) = [CHR 0x5C, CHR ''b'']
   \<and> quote_char (CHR 0x0C) = [CHR 0x5C, CHR ''f'']
   \<and> quote_char (CHR 0x0A) = [CHR 0x5C, CHR ''n'']
   \<and> quote_char (CHR 0x0D) = [CHR 0x5C, CHR ''r'']
   \<and> quote_char (CHR 0x09) = [CHR 0x5C, CHR ''t'']
   \<and> quote_char (CHR 0x1F) = [CHR 0x5C, CHR ''u'', CHR ''0'', CHR ''0'', CHR ''1'', CHR ''f'']
   \<and> ((of_char d :: nat) < 32 \<and> d \<notin> {CHR 0x08, CHR 0x09, CHR 0x0A, CHR 0x0C, CHR 0x0D} \<longrightarrow>
        quote_char d = [CHR 0x5C, CHR ''u'', CHR ''0'', CHR ''0'',
                        hex_digit (of_char d div 16), hex_digit (of_char d mod 16)])
   \<and> map hex_digit [0, 1, 2, 3, 4, 5, 6, 7, 8, 9, 10, 11, 12, 13, 14, 15] = ''0123456789abcdef''
   \<and> (phase s \<noteq> Some OPEN \<longrightarrow>
        toggleAppliance command s
          = s\<lparr>error := Some (emoji_cross @ '' WebSocket not connected!''),
              lastToastRef := emoji_cross @ '' WebSocket not connected!'',
              toasts := toasts s @
                (if lastToastRef s = emoji_cross @ '' WebSocket not connected!'' then []
                 else [(Error, emoji_cross @ '' WebSocket not connected!'')])\<rparr>
        \<and> sent (toggleAppliance command s) = sent s)\<close>
proof -
  have sends: \<open>toggleAppliance c s
        = s\<lparr>sent := sent s @ [(h, ''{"command":"'' @ concat (map quote_char c) @ ''"}'')],
            error := None,
            lastToastRef := emoji_loudspeaker @ '' Command Sent: '' @ c,
            toasts := toasts s @
              (if lastToastRef s = emoji_loudspeaker @ '' Command Sent: '' @ c
               then []
               else [(Success, emoji_loudspeaker @ '' Command Sent: '' @ c)])\<rparr>\<close>
    if "phase s = Some OPEN" and "wsRef s = Some h" for c h
    using that
    by (simp add: toggleAppliance_def ws_send_def JSON_stringify_command_def showToast_def)
  have connected: \<open>\<exists>h. wsRef s = Some h
        \<and> toggleAppliance command s
            = s\<lparr>sent := sent s @
                  [(h, ''{"command":"'' @ concat (map quote_char command) @ ''"}'')],
                error := None,
                lastToastRef := emoji_loudspeaker @ '' Command Sent: '' @ command,
                toasts := toasts s @
                  (if lastToastRef s = emoji_loudspeaker @ '' Command Sent: '' @ command
                   then []
                   else [(Success, emoji_loudspeaker @ '' Command Sent: '' @ command)])\<rparr>
        \<and> sent (toggleAppliance ''ON'' s) = sent s @ [(h, ''{"command":"ON"}'')]
        \<and> sent (toggleAppliance ''OFF'' s) = sent s @ [(h, ''{"command":"OFF"}'')]\<close>
    if live: "phase s = Some OPEN"
  proof -
    from live obtain h where h: "wsRef s = Some h"
      by (auto simp: phase_def split: option.splits)
    have on: \<open>sent (toggleAppliance ''ON'' s) = sent s @ [(h, ''{"command":"ON"}'')]\<close>
      by (simp add: sends [OF live h] quote_char_def)
    have off: \<open>sent (toggleAppliance ''OFF'' s) = sent s @ [(h, ''{"command":"OFF"}'')]\<close>
      by (simp add: sends [OF live h] quote_char_def)
    from h sends [OF live h, of command] on off show ?thesis
      by blast
  qed
  have refused: "toggleAppliance command s
          = s\<lparr>error := Some (emoji_cross @ '' WebSocket not connected!''),
              lastToastRef := emoji_cross @ '' WebSocket not connected!'',
              toasts := toasts s @
                (if lastToastRef s = emoji_cross @ '' WebSocket not connected!'' then []
                 else [(Error, emoji_cross @ '' WebSocket not connected!'')])\<rparr>
        \<and> sent (toggleAppliance command s) = sent s"
    if "phase s \<noteq> Some OPEN"
    using that by (simp add: toggleAppliance_def showToast_def)
  have escapes: "quote_char (CHR 0x22) = [CHR 0x5C, CHR 0x22]"
    "quote_char (CHR 0x5C) = [CHR 0x5C, CHR 0x5C]"
    "quote_char (CHR 0x08) = [CHR 0x5C, CHR ''b'']"
    "quote_char (CHR 0x0C) = [CHR 0x5C, CHR ''f'']"
    "quote_char (CHR 0x0A) = [CHR 0x5C, CHR ''n'']"
    "quote_char (CHR 0x0D) = [CHR 0x5C, CHR ''r'']"
    "quote_char (CHR 0x09) = [CHR 0x5C, CHR ''t'']"
    "quote_char (CHR 0x1F) = [CHR 0x5C, CHR ''u'', CHR ''0'', CHR ''0'', CHR ''1'', CHR ''f'']"
    by (simp_all add: quote_char_def hex_digit_def)
  have control: "quote_char d = [CHR 0x5C, CHR ''u'', CHR ''0'', CHR ''0'',
                        hex_digit (of_char d div 16), hex_digit (of_char d mod 16)]"
    if "(of_char d :: nat) < 32 \<and> d \<notin> {CHR 0x08, CHR 0x09, CHR 0x0A, CHR 0x0C, CHR 0x0D}"
  proof -
    from that have "d \<noteq> CHR 0x22" "d \<noteq> CHR 0x5C"
      by auto
    with that show ?thesis
      by (simp add: quote_char_def hex_digit_def)
  qed
  have digits: "map hex_digit [0, 1, 2, 3, 4, 5, 6, 7, 8, 9, 10, 11, 12, 13, 14, 15]
                = ''0123456789abcdef''"
    by (simp add: hex_digit_def)
  from connected refused escapes control digits quote_plain [of command] show ?thesis
    by blast
qed

theorem toggleAppliance_gating_witness:
  \<open>phase (socket_opened 0 (start initial_state)) = Some OPEN
   \<and> sent (toggleAppliance ''ON'' (socket_opened 0 (start initial_state)))
       = [(0, ''{"command":"ON"}'')]
   \<and> sent (toggleAppliance ''OFF'' (socket_opened 0 (start initial_state)))
       = [(0, ''{"command":"OFF"}'')]
   \<and> toasts (toggleAppliance ''OFF'' (socket_opened 0 (start initial_state)))
       = [(Success, emoji_check @ '' Connected to WebSocket Server''),
          (Success, emoji_loudspeaker @ '' Command Sent: OFF'')]
   \<and> error (toggleAppliance ''OFF'' (socket_opened 0 (start initial_state))) = None
   \<and> list_all (\<lambda>c. c \<noteq> CHR 0x22 \<and> c \<noteq> CHR 0x5C \<and> (32::nat) \<le> of_char c) ''OFF''
   \<and> concat (map quote_char ''OFF'') = ''OFF''
   \<and> (of_char (CHR 0x01) :: nat) < 32
   \<and> CHR 0x01 \<notin> {CHR 0x08, CHR 0x09, CHR 0x0A, CHR 0x0C, CHR 0x0D}
   \<and> quote_char (CHR 0x01) = [CHR 0x5C, CHR ''u'', CHR ''0'', CHR ''0'', CHR ''0'', CHR ''1'']
   \<and> phase (socket_closed 0 (start initial_state)) \<noteq> Some OPEN
   \<and> sent (toggleAppliance ''ON'' (socket_closed 0 (start initial_state))) = []
   \<and> toasts (toggleAppliance ''ON'' (socket_closed 0 (start initial_state)))
       = [(Warning, emoji_arrows @ '' Reconnecting to WebSocket...''),
          (Error, emoji_cross @ '' WebSocket not connected!'')]
   \<and> error (toggleAppliance ''ON'' (socket_closed 0 (start initial_state)))
       = Some (emoji_cross @ '' WebSocket not connected!'')\<close>
  using toggleAppliance_gating [where s = "socket_opened 0 (start initial_state)"
      and command = "''OFF''" and d = "CHR 0x01"]
    toggleAppliance_gating [where s = "socket_closed 0 (start initial_state)"
      and command = "''ON''"]
  by (simp add: phase_def socket_opened_def socket_closed_def start_def
      connectWebSocket_def onopen_def onclose_def initial_state_def hex_digit_def
      emoji_check_def emoji_loudspeaker_def emoji_arrows_def emoji_cross_def)

section \<open>The notification gate suppresses an immediate repetition\<close>

text \<open>
  Claim C4. \<open>showToast message type\<close> compares \<open>message\<close>, and nothing else, with the last
  message let through. When they are equal the call changes nothing: no call of \<open>toast\<close>,
  \<open>lastToastRef\<close> as it was. Otherwise \<open>lastToastRef\<close> becomes \<open>message\<close> and exactly one
  call \<open>toast[type](message)\<close> is added. So a message shown twice in a row, whatever the
  two severities, is displayed once, and \<open>x\<close>, \<open>y\<close>, \<open>x\<close> with \<open>x \<noteq> y\<close> are displayed all
  three.
\<close>

theorem showToast_dedup:
  "(lastToastRef s = message \<longrightarrow> showToast message type s = s)
   \<and> (lastToastRef s \<noteq> message \<longrightarrow>
        showToast message type s
          = s\<lparr>lastToastRef := message, toasts := toasts s @ [(type, message)]\<rparr>)
   \<and> (lastToastRef s \<noteq> x \<longrightarrow>
        toasts (showToast x t2 (showToast x t1 s)) = toasts s @ [(t1, x)])
   \<and> (lastToastRef s \<noteq> x \<and> x \<noteq> y \<longrightarrow>
        toasts (showToast x t3 (showToast y t2 (showToast x t1 s)))
          = toasts s @ [(t1, x), (t2, y), (t3, x)])"
proof (intro conjI impI)
  assume "lastToastRef s = message"
  then show "showToast message type s = s"
    by (simp add: showToast_def)
next
  assume "lastToastRef s \<noteq> message"
  then show "showToast message type s
          = s\<lparr>lastToastRef := message, toasts := toasts s @ [(type, message)]\<rparr>"
    by (simp add: showToast_def)
next
  assume "lastToastRef s \<noteq> x"
  then show "toasts (showToast x t2 (showToast x t1 s)) = toasts s @ [(t1, x)]"
    by simp
next
  assume "lastToastRef s \<noteq> x \<and> x \<noteq> y"
  then show "toasts (showToast x t3 (showToast y t2 (showToast x t1 s)))
          = toasts s @ [(t1, x), (t2, y), (t3, x)]"
    by auto
qed

theorem showToast_dedup_witness:
  "lastToastRef initial_state \<noteq> ''X'' \<and> ''X'' \<noteq> ''Y''
   \<and> toasts (showToast ''X'' Info (showToast ''X'' Info initial_state)) = [(Info, ''X'')]
   \<and> toasts (showToast ''X'' Info (showToast ''Y'' Info (showToast ''X'' Info initial_state)))
       = [(Info, ''X''), (Info, ''Y''), (Info, ''X'')]
   \<and> showToast ''X'' Error (showToast ''X'' Info initial_state)
       = showToast ''X'' Info initial_state"
  using showToast_dedup [of initial_state "''X''" Info "''X''" Info Info "''Y''" Info]
    showToast_dedup [of "showToast ''X'' Info initial_state" "''X''" Error]
  by (simp add: initial_state_def)

text \<open>
  Claim C10. \<open>lastToastRef\<close> starts as the empty string, so a first call of \<open>showToast\<close>
  with the empty message is suppressed although nothing has been displayed yet.
\<close>

theorem first_empty_toast_suppressed:
  "lastToastRef initial_state = [] \<and> showToast [] type initial_state = initial_state
   \<and> toasts (showToast [] type initial_state) = []"
  by (simp add: showToast_def initial_state_def)

section \<open>The initial status\<close>

text \<open>
  Claim C7 as stated: the status before any message is a value other than the reported
  states \<open>ON\<close> and \<open>OFF\<close>. It is not.
\<close>

theorem initial_status_not_unknown:
  "\<not> (status initial_state \<noteq> JString ''ON'' \<and> status initial_state \<noteq> JString ''OFF'')"
  by (simp add: initial_state_def)

text \<open>
  Claim C7, amended. \<open>useState("OFF")\<close>: the status before any message is the string
  \<open>OFF\<close>, one of the reported states; a first message \<open>OFF\<close> therefore changes nothing
  and notifies nobody.
\<close>

theorem initial_status_OFF:
  "status initial_state = JString ''OFF''
   \<and> onmessage (Text ''OFF'') parsed initial_state = Some initial_state"
  by (simp add: initial_state_def onmessage_def parse_data_def startsWith_def endsWith_def
      apply_command_def status_updater_def)

section \<open>The status follows the reported command\<close>

text \<open>
  Claim C3 as stated: a command that is present and differs from the status becomes the
  status. The object \<open>{command: ""}\<close> has the field, its value is not the initial status,
  and yet nothing changes: the empty string does not pass \<open>if (data.command)\<close>.
\<close>

theorem empty_command_ignored:
  "get_command (JObject [(''command'', JString [])]) = Some (JString [])
   \<and> JString [] \<noteq> status initial_state
   \<and> apply_command (JString []) initial_state = Some initial_state
   \<and> map_option status (apply_command (JString []) initial_state) \<noteq> Some (JString [])"
  by (simp add: apply_command_def initial_state_def)

text \<open>
  Claim C3, amended. A command that is absent (an object without the field gives
  \<open>undefined\<close>) or counts as false, as the empty string does, changes nothing and notifies
  nobody. A command that counts as true and is \<open>===\<close> the status changes nothing either.
  A command that counts as true and is \<open>!==\<close> the status is put into the message
  \<open>Device is now\<close>. When it has a text form, as every string, number and truth value has
  and every object without an own property \<open>toString\<close>, it becomes the status and the
  message goes once, with severity info, to the notification gate, which displays it unless
  it repeats the last message. When it has none, the updater throws: no status is set and
  no message passed. For a string \<open>x\<close> that is not empty, \<open>!==\<close> is inequality and the
  text in the message is \<open>x\<close> itself.
\<close>

theorem apply_command_cases:
  "(\<not> truthy command \<longrightarrow> apply_command command s = Some s)
   \<and> (truthy command \<and> \<not> strict_neq (status s) command \<longrightarrow>
        apply_command command s = Some s)
   \<and> (truthy command \<and> strict_neq (status s) command \<and> to_string command = Some shown \<longrightarrow>
        apply_command command s
          = Some (s\<lparr>status := command,
                    lastToastRef := emoji_bulb @ '' Device is now '' @ shown,
                    toasts := toasts s @
                      (if lastToastRef s = emoji_bulb @ '' Device is now '' @ shown then []
                       else [(Info, emoji_bulb @ '' Device is now '' @ shown)])\<rparr>))
   \<and> (truthy command \<and> strict_neq (status s) command \<and> to_string command = None \<longrightarrow>
        apply_command command s = None)
   \<and> to_string (JString x) = Some x \<and> to_string (JNumber n) = Some n
   \<and> to_string (JBool b) = Some (if b then ''true'' else ''false'')
   \<and> (to_string (JObject fs) = None) = (''toString'' \<in> fst ` set fs)
   \<and> (''toString'' \<notin> fst ` set fs) = (to_string (JObject fs) = Some ''[object Object]'')
   \<and> (map_of fs ''command'' = None \<longrightarrow> get_command (JObject fs) = Some JUndefined)
   \<and> \<not> truthy JUndefined \<and> \<not> truthy (JString [])
   \<and> (x \<noteq> [] \<longrightarrow> truthy (JString x)
         \<and> strict_neq (status s) (JString x) = (status s \<noteq> JString x))"
proof (intro conjI impI)
  assume "\<not> truthy command"
  then show "apply_command command s = Some s"
    by (simp add: apply_command_def)
next
  assume "truthy command \<and> \<not> strict_neq (status s) command"
  then have "truthy command" and same: "\<not> strict_neq (status s) command"
    by simp_all
  from same have "status s = command"
    by (cases command) simp_all
  with \<open>truthy command\<close> same show "apply_command command s = Some s"
    by (simp add: apply_command_def status_updater_def)
next
  assume "truthy command \<and> strict_neq (status s) command \<and> to_string command = Some shown"
  then show "apply_command command s
          = Some (s\<lparr>status := command,
                    lastToastRef := emoji_bulb @ '' Device is now '' @ shown,
                    toasts := toasts s @
                      (if lastToastRef s = emoji_bulb @ '' Device is now '' @ shown then []
                       else [(Info, emoji_bulb @ '' Device is now '' @ shown)])\<rparr>)"
    by (simp add: apply_command_def status_updater_def showToast_def)
next
  assume "truthy command \<and> strict_neq (status s) command \<and> to_string command = None"
  then show "apply_command command s = None"
    by (simp add: apply_command_def status_updater_def)
qed simp_all

theorem apply_command_cases_witness:
  "\<not> truthy JUndefined \<and> apply_command JUndefined initial_state = Some initial_state
   \<and> truthy (JString ''OFF'') \<and> \<not> strict_neq (status initial_state) (JString ''OFF'')
   \<and> apply_command (JString ''OFF'') initial_state = Some initial_state
   \<and> truthy (JString ''ON'') \<and> strict_neq (status initial_state) (JString ''ON'')
   \<and> to_string (JString ''ON'') = Some ''ON''
   \<and> apply_command (JString ''ON'') initial_state
       = Some (initial_state\<lparr>status := JString ''ON'',
                 lastToastRef := emoji_bulb @ '' Device is now ON'',
                 toasts := [(Info, emoji_bulb @ '' Device is now ON'')]\<rparr>)
   \<and> truthy (JObject [(''toString'', JNumber ''1'')])
   \<and> strict_neq (status initial_state) (JObject [(''toString'', JNumber ''1'')])
   \<and> to_string (JObject [(''toString'', JNumber ''1'')]) = None
   \<and> apply_command (JObject [(''toString'', JNumber ''1'')]) initial_state = None
   \<and> map_of [(''state'', JString ''ON'')] ''command'' = None
   \<and> get_command (JObject [(''state'', JString ''ON'')]) = Some JUndefined"
  using apply_command_cases [where command = JUndefined and s = initial_state]
    apply_command_cases [where command = "JString ''OFF''" and s = initial_state]
    apply_command_cases [where command = "JString ''ON''" and s = initial_state
       and shown = "''ON''" and x = "''ON''"]
    apply_command_cases [where command = "JObject [(''toString'', JNumber ''1'')]"
       and s = initial_state and fs = "[(''state'', JString ''ON'')]"]
  by (simp add: initial_state_def emoji_bulb_def)

section \<open>Frames that do not parse\<close>

text \<open>
  Claim C5 as stated: every frame that starts with a brace and is no JSON yields the parse
  error and leaves the status alone. The frame \<open>{abc\<close> starts with a brace and is no JSON
  (\<open>JSON.parse\<close> throws on it), but it does not end with a brace, so it is never parsed:
  it becomes the status, and the notification is the one of a changed device.
\<close>

theorem unclosed_brace_taken_as_command:
  "startsWith ''{abc'' ''{''
   \<and> map_option status (onmessage (Text ''{abc'') None initial_state) = Some (JString ''{abc'')
   \<and> map_option status (onmessage (Text ''{abc'') None initial_state)
       \<noteq> Some (status initial_state)
   \<and> map_option toasts (onmessage (Text ''{abc'') None initial_state)
       = Some [(Info, emoji_bulb @ '' Device is now {abc'')]"
  by (simp add: onmessage_def parse_data_def startsWith_def endsWith_def apply_command_def
      status_updater_def initial_state_def)

text \<open>
  Claim C5, amended. For every text frame that starts with \<open>{\<close> and ends with \<open>}\<close> and on
  which \<open>JSON.parse\<close> throws, \<open>onmessage\<close> passes the message
  \<open>Error parsing WebSocket message!\<close> with severity error to the notification gate and
  changes nothing else: the status stays.
\<close>

theorem malformed_bracketed_frame:
  "startsWith raw ''{'' \<and> endsWith raw ''}'' \<longrightarrow>
     onmessage (Text raw) None s
       = Some (s\<lparr>lastToastRef := emoji_cross @ '' Error parsing WebSocket message!'',
                 toasts := toasts s @
                   (if lastToastRef s = emoji_cross @ '' Error parsing WebSocket message!''
                    then []
                    else [(Error, emoji_cross @ '' Error parsing WebSocket message!'')])\<rparr>)
     \<and> map_option status (onmessage (Text raw) None s) = Some (status s)"
proof
  assume "startsWith raw ''{'' \<and> endsWith raw ''}''"
  then have "parse_data (Text raw) None = None"
    by (simp add: parse_data_def)
  then have caught: "onmessage (Text raw) None s = Some (parse_error_toast s)"
    by (simp add: onmessage_def)
  show "onmessage (Text raw) None s
       = Some (s\<lparr>lastToastRef := emoji_cross @ '' Error parsing WebSocket message!'',
                 toasts := toasts s @
                   (if lastToastRef s = emoji_cross @ '' Error parsing WebSocket message!''
                    then []
                    else [(Error, emoji_cross @ '' Error parsing WebSocket message!'')])\<rparr>)
     \<and> map_option status (onmessage (Text raw) None s) = Some (status s)"
    unfolding caught by (simp add: parse_error_toast_def showToast_def)
qed

theorem malformed_bracketed_frame_witness:
  "startsWith ''{abc}'' ''{'' \<and> endsWith ''{abc}'' ''}''
   \<and> map_option toasts (onmessage (Text ''{abc}'') None initial_state)
       = Some [(Error, emoji_cross @ '' Error parsing WebSocket message!'')]
   \<and> map_option status (onmessage (Text ''{abc}'') None initial_state) = Some (JString ''OFF'')"
  using malformed_bracketed_frame [of "''{abc}''" initial_state]
  by (simp add: startsWith_def endsWith_def initial_state_def emoji_cross_def)

section \<open>Which frames set the status\<close>

text \<open>
  Claim C9 as stated: any string in the command field, the empty string too, that differs
  from the status becomes the status. An empty text frame is taken as \<open>{command: ""}\<close>,
  and the frame \<open>{"command":""}\<close> parses to that object; on both, the status stays
  \<open>OFF\<close>.
\<close>

theorem empty_string_command_not_applied:
  \<open>parse_data (Text []) None = Some (JObject [(''command'', JString [])])
   \<and> onmessage (Text []) None initial_state = Some initial_state
   \<and> onmessage (Text ''{"command":""}'') (Some (JObject [(''command'', JString [])]))
        initial_state = Some initial_state
   \<and> status initial_state \<noteq> JString []\<close>
  by (simp add: onmessage_def parse_data_def startsWith_def endsWith_def apply_command_def
      initial_state_def)

text \<open>
  Claim C9, amended. A text frame that does not both start with \<open>{\<close> and end with \<open>}\<close> is
  handled as the object \<open>{command: raw}\<close>. Whenever the command read from a frame is a
  string that is not empty and differs from the status, the status becomes that string.
  When it is the empty string, the frame changes nothing.
\<close>

theorem inbound_command_applied:
  "(\<not> (startsWith raw ''{'' \<and> endsWith raw ''}'') \<longrightarrow>
      parse_data (Text raw) parsed = Some (JObject [(''command'', JString raw)])
      \<and> onmessage (Text raw) parsed s = apply_command (JString raw) s)
   \<and> (parse_data d parsed = Some data \<and> get_command data = Some (JString x) \<and> x \<noteq> []
        \<and> status s \<noteq> JString x \<longrightarrow>
        map_option status (onmessage d parsed s) = Some (JString x))
   \<and> (parse_data d parsed = Some data \<and> get_command data = Some (JString []) \<longrightarrow>
        onmessage d parsed s = Some s)"
proof (intro conjI impI)
  assume "\<not> (startsWith raw ''{'' \<and> endsWith raw ''}'')"
  then have literal: "parse_data (Text raw) parsed = Some (JObject [(''command'', JString raw)])"
    by (auto simp: parse_data_def)
  then show "parse_data (Text raw) parsed = Some (JObject [(''command'', JString raw)])" .
  show "onmessage (Text raw) parsed s = apply_command (JString raw) s"
    by (simp add: onmessage_def literal)
next
  assume "parse_data d parsed = Some data \<and> get_command data = Some (JString x) \<and> x \<noteq> []
          \<and> status s \<noteq> JString x"
  then have read: "onmessage d parsed s = apply_command (JString x) s"
    and new: "x \<noteq> []" "status s \<noteq> JString x"
    by (simp_all add: onmessage_def)
  from new show "map_option status (onmessage d parsed s) = Some (JString x)"
    unfolding read by (simp add: apply_command_def status_updater_def)
next
  assume "parse_data d parsed = Some data \<and> get_command data = Some (JString [])"
  then have "onmessage d parsed s = apply_command (JString []) s"
    by (simp add: onmessage_def)
  then show "onmessage d parsed s = Some s"
    by (simp add: apply_command_def)
qed

theorem inbound_command_applied_witness:
  \<open>\<not> (startsWith ''ON'' ''{'' \<and> endsWith ''ON'' ''}'')
   \<and> onmessage (Text ''ON'') None initial_state = apply_command (JString ''ON'') initial_state
   \<and> parse_data (Text ''{"command":"ON"}'') (Some (JObject [(''command'', JString ''ON'')]))
       = Some (JObject [(''command'', JString ''ON'')])
   \<and> get_command (JObject [(''command'', JString ''ON'')]) = Some (JString ''ON'')
   \<and> ''ON'' \<noteq> [] \<and> status initial_state \<noteq> JString ''ON''
   \<and> map_option status
        (onmessage (Text ''{"command":"ON"}'') (Some (JObject [(''command'', JString ''ON'')]))
           initial_state) = Some (JString ''ON'')
   \<and> parse_data (Text []) None = Some (JObject [(''command'', JString [])])
   \<and> get_command (JObject [(''command'', JString [])]) = Some (JString [])
   \<and> onmessage (Text []) None initial_state = Some initial_state\<close>
  using inbound_command_applied [where raw = "''ON''" and parsed = None and s = initial_state]
    inbound_command_applied [where d = \<open>Text ''{"command":"ON"}''\<close>
       and parsed = "Some (JObject [(''command'', JString ''ON'')])"
       and data = "JObject [(''command'', JString ''ON'')]" and x = "''ON''"
       and s = initial_state]
    inbound_command_applied [where d = "Text []" and parsed = None
       and data = "JObject [(''command'', JString [])]" and s = initial_state]
  by (simp add: startsWith_def endsWith_def parse_data_def initial_state_def)

section \<open>Voice commands are matched in lower case\<close>












end
